theory Spec2Isabelle
  imports Main
begin

section \<open>Request states of packages/backend/src/tokens/authStatus.ts\<close>

subsection \<open>Enumerations and their string values\<close>

datatype AuthStatus = SignedIn | SignedOut | Interstitial | Unknown

fun AuthStatus_value :: "AuthStatus \<Rightarrow> string" where
  "AuthStatus_value SignedIn = ''signed-in''"
| "AuthStatus_value SignedOut = ''signed-out''"
| "AuthStatus_value Interstitial = ''interstitial''"
| "AuthStatus_value Unknown = ''unknown''"

text \<open>
  The member \<open>AuthErrorReason.Unknown\<close> is written \<open>ReasonUnknown\<close>: the name
  \<open>Unknown\<close> is taken by \<open>AuthStatus.Unknown\<close>.
\<close>

datatype AuthErrorReason =
    CookieAndUATMissing
  | CookieMissing
  | CookieOutDated
  | CookieUATMissing
  | CrossOriginReferrer
  | HeaderMissingCORS
  | HeaderMissingNonBrowser
  | SatelliteCookieNeedsSyncing
  | StandardSignedIn
  | StandardSignedOut
  | UnexpectedError
  | ReasonUnknown

fun AuthErrorReason_value :: "AuthErrorReason \<Rightarrow> string" where
  "AuthErrorReason_value CookieAndUATMissing = ''cookie-and-uat-missing''"
| "AuthErrorReason_value CookieMissing = ''cookie-missing''"
| "AuthErrorReason_value CookieOutDated = ''cookie-outdated''"
| "AuthErrorReason_value CookieUATMissing = ''uat-missing''"
| "AuthErrorReason_value CrossOriginReferrer = ''cross-origin-referrer''"
| "AuthErrorReason_value HeaderMissingCORS = ''header-missing-cors''"
| "AuthErrorReason_value HeaderMissingNonBrowser = ''header-missing-non-browser''"
| "AuthErrorReason_value SatelliteCookieNeedsSyncing = ''satellite-needs-syncing''"
| "AuthErrorReason_value StandardSignedIn = ''standard-signed-in''"
| "AuthErrorReason_value StandardSignedOut = ''standard-signed-out''"
| "AuthErrorReason_value UnexpectedError = ''unexpected-error''"
| "AuthErrorReason_value ReasonUnknown = ''unknown''"

text \<open>
  \<open>AuthReason = AuthErrorReason | TokenVerificationErrorReason\<close>. The second enum is
  declared in \<open>./errors\<close>, whose members are not fixed here: a member of it is the
  string it stands for, whatever that string is.
\<close>

datatype AuthReason =
    AuthErrorReason AuthErrorReason
  | TokenVerificationErrorReason string

fun AuthReason_value :: "AuthReason \<Rightarrow> string" where
  "AuthReason_value (AuthErrorReason r) = AuthErrorReason_value r"
| "AuthReason_value (TokenVerificationErrorReason s) = s"

subsection \<open>JavaScript values\<close>

text \<open>
  A property that may be missing is an \<open>option\<close>: \<open>None\<close> is \<open>undefined\<close> in the
  options bag and in the claims, and \<open>null\<close> in \<open>reason\<close> and \<open>message\<close> of a state.
  A string is truthy when it is there and not empty.
\<close>

definition truthy :: "string option \<Rightarrow> bool" where
  "truthy v = (case v of None \<Rightarrow> False | Some s \<Rightarrow> s \<noteq> [])"

text \<open>\<open>a || b\<close> on strings that may be missing.\<close>

definition or_else :: "string option \<Rightarrow> string option \<Rightarrow> string option" where
  "or_else a b = (if truthy a then a else b)"

text \<open>
  What a retrieve callback hands back is \<open>string | null | undefined\<close>; the three are
  kept apart.
\<close>

datatype retrieved = Undefined | Null | Str string

subsection \<open>The options bag, the claims and the collaborators\<close>

text \<open>
  The constructors read the bag through \<open>options as any\<close>. The load flags are only
  tested for truthiness, so they are booleans here (\<open>undefined\<close> is \<open>False\<close>).
\<close>

record BackendApiClientOptions =
  apiKey :: "string option"
  secretKey :: "string option"
  apiUrl :: "string option"
  apiVersion :: "string option"

text \<open>
  The records the identity service answers with are opaque to this module; each is
  known by an identifier. A fetch answers with a record or fails.
\<close>

datatype Session = Session string
datatype User = User string
datatype Organization = Organization string
datatype fetchError = FetchError string

record BackendApiClient =
  getSession :: "string \<Rightarrow> fetchError + Session"
  getUser :: "string \<Rightarrow> fetchError + User"
  getOrganization :: "string \<Rightarrow> fetchError + Organization"

record JwtPayload =
  sid :: string
  org_id :: "string option"
  sub :: string

record SignedInAuthObjectOptions =
  secretKey :: "string option"
  apiKey :: "string option"
  apiUrl :: "string option"
  apiVersion :: "string option"
  token :: "string option"
  session :: "Session option"
  user :: "User option"
  organization :: "Organization option"

record options =
  apiKey :: "string option"
  secretKey :: "string option"
  apiUrl :: "string option"
  apiVersion :: "string option"
  cookieToken :: "string option"
  frontendApi :: "string option"
  proxyUrl :: "string option"
  publishableKey :: "string option"
  domain :: "string option"
  isSatellite :: "bool option"
  headerToken :: "string option"
  loadSession :: bool
  loadUser :: bool
  loadOrganization :: bool

text \<open>\<open>{ ...options, status, reason, message }\<close>: the bag with three keys set over it.\<close>

record AuthObjectDebugData =
  options :: options
  status :: AuthStatus
  reason :: "AuthReason option"
  message :: "string option"

subsection \<open>Auth objects and the world\<close>

text \<open>
  Modelled from the spec: the auth objects and their two builders belong to
  \<open>./authObjects\<close>, which is not part of the sources verified here. The spec describes
  the signed-in object as built from the claims, the chosen token and whichever records
  were fetched, and the signed-out object as carrying the reason, message and status. An
  auth object is therefore the data its builder was called with.
\<close>

datatype AuthObject =
    SignedInAuthObject JwtPayload SignedInAuthObjectOptions AuthObjectDebugData
  | SignedOutAuthObject AuthObjectDebugData

datatype fetchCall = GetSession string | GetUser string | GetOrganization string

text \<open>
  The world outside a constructor: the fetches issued to the identity service so far
  (oldest first) and the auth objects made so far.
\<close>

record world =
  issued :: "fetchCall list"
  objects :: "AuthObject list"

text \<open>
  Making an object puts it at the end of the store; the reference handed out is its
  position there.
\<close>

definition alloc :: "AuthObject \<Rightarrow> world \<Rightarrow> nat \<times> world" where
  "alloc obj w = (length (objects w), w\<lparr>objects := objects w @ [obj]\<rparr>)"

text \<open>
  Modelled from the spec: \<open>signedInAuthObject\<close> of \<open>./authObjects\<close> is missing. Each call
  makes a new object out of its three arguments.
\<close>

definition signedInAuthObject ::
  "JwtPayload \<Rightarrow> SignedInAuthObjectOptions \<Rightarrow> AuthObjectDebugData \<Rightarrow> world \<Rightarrow> nat \<times> world" where
  "signedInAuthObject sessionClaims opts debugData w =
     alloc (SignedInAuthObject sessionClaims opts debugData) w"

text \<open>
  Modelled from the spec: \<open>signedOutAuthObject\<close> of \<open>./authObjects\<close> is missing. Each
  call makes a new object out of its argument.
\<close>

definition signedOutAuthObject :: "AuthObjectDebugData \<Rightarrow> world \<Rightarrow> nat \<times> world" where
  "signedOutAuthObject debugData w = alloc (SignedOutAuthObject debugData) w"

text \<open>
  The three fetchers return promises. A fetch is issued when its promise is created, in
  the order of the array literal: the call is recorded and the service's answer is the
  promise's outcome (\<open>Inl\<close> a rejection).
\<close>

definition issue :: "fetchCall \<Rightarrow> world \<Rightarrow> world" where
  "issue c w = w\<lparr>issued := issued w @ [c]\<rparr>"

text \<open>
  \<open>Promise.all\<close> of the three promises: fulfilled with the three values when all are,
  rejected as soon as one is. When several reject, JavaScript reports the one that
  rejected first in time; the model has no clock and reports the leftmost.
\<close>

fun Promise_all ::
  "(fetchError + 'a) \<Rightarrow> (fetchError + 'b) \<Rightarrow> (fetchError + 'c) \<Rightarrow> fetchError + ('a \<times> 'b \<times> 'c)" where
  "Promise_all (Inl e) _ _ = Inl e"
| "Promise_all (Inr _) (Inl e) _ = Inl e"
| "Promise_all (Inr _) (Inr _) (Inl e) = Inl e"
| "Promise_all (Inr a) (Inr b) (Inr c) = Inr (a, b, c)"

subsection \<open>Transport keys and the retrieved view\<close>

text \<open>
  \<open>constants.Headers\<close> is imported from \<open>../constants\<close>; the three header names the
  codec uses are a parameter.
\<close>

record Headers =
  AuthStatus :: string
  AuthMessage :: string
  AuthReason :: string

text \<open>The plain object \<open>{ status, message, reason }\<close> that \<open>retrieveRequestState\<close> returns.\<close>

record RetrievedRequestState =
  status :: retrieved
  message :: retrieved
  reason :: retrieved

subsection \<open>The state and its four constructors\<close>

record RequestState =
  status :: AuthStatus
  reason :: "AuthReason option"
  message :: "string option"
  frontendApi :: "string option"
  proxyUrl :: "string option"
  publishableKey :: "string option"
  isSatellite :: "bool option"
  domain :: "string option"
  isSignedIn :: bool
  isInterstitial :: bool
  isUnknown :: bool
  toAuth :: "world \<Rightarrow> nat option \<times> world"

text \<open>
  \<open>signedIn\<close> is \<open>async\<close>: its result is the outcome of the promise it returns, \<open>Inl\<close>
  when the promise is rejected. \<open>createBackendApiClient\<close> is imported from \<open>../api\<close> and
  is a parameter.
\<close>

definition signedIn ::
  "(BackendApiClientOptions \<Rightarrow> BackendApiClient) \<Rightarrow> options \<Rightarrow> JwtPayload \<Rightarrow> world
    \<Rightarrow> (fetchError + RequestState) \<times> world" where
  "signedIn createBackendApiClient opts sessionClaims w0 =
    (let sessionId = sid sessionClaims;
         orgId = org_id sessionClaims;
         userId = sub sessionClaims;
         api = createBackendApiClient
           \<lparr> BackendApiClientOptions.apiKey = options.apiKey opts,
             secretKey = options.secretKey opts,
             apiUrl = options.apiUrl opts,
             apiVersion = options.apiVersion opts \<rparr>;
         (sessionP, w1) =
           (if loadSession opts
            then (map_sum id Some (getSession api sessionId), issue (GetSession sessionId) w0)
            else (Inr None, w0));
         (userP, w2) =
           (if loadUser opts
            then (map_sum id Some (getUser api userId), issue (GetUser userId) w1)
            else (Inr None, w1));
         (organizationP, w3) =
           (case orgId of
              Some oid \<Rightarrow>
                if loadOrganization opts \<and> oid \<noteq> []
                then (map_sum id Some (getOrganization api oid), issue (GetOrganization oid) w2)
                else (Inr None, w2)
            | None \<Rightarrow> (Inr None, w2))
     in case Promise_all sessionP userP organizationP of
          Inl e \<Rightarrow> (Inl e, w3)
        | Inr (sessionResp, userResp, organizationResp) \<Rightarrow>
            (let (authObject, w4) =
                   signedInAuthObject sessionClaims
                     \<lparr> SignedInAuthObjectOptions.secretKey = options.secretKey opts,
                       apiKey = options.apiKey opts,
                       apiUrl = options.apiUrl opts,
                       apiVersion = options.apiVersion opts,
                       token = or_else (or_else (cookieToken opts) (headerToken opts)) (Some []),
                       session = sessionResp,
                       user = userResp,
                       organization = organizationResp \<rparr>
                     \<lparr> options = opts, status = SignedIn, reason = None, message = None \<rparr>
                     w3
             in (Inr \<lparr> status = SignedIn,
                       reason = None,
                       message = None,
                       frontendApi = options.frontendApi opts,
                       proxyUrl = options.proxyUrl opts,
                       publishableKey = options.publishableKey opts,
                       isSatellite = options.isSatellite opts,
                       domain = options.domain opts,
                       isSignedIn = True,
                       isInterstitial = False,
                       isUnknown = False,
                       toAuth = (\<lambda>w. (Some authObject, w)) \<rparr>, w4)))"

text \<open>
  The third argument of the other three is \<open>message = ''\<close>: \<open>None\<close> is the omitted
  argument, which takes the default.
\<close>

definition signedOut :: "options \<Rightarrow> AuthReason \<Rightarrow> string option \<Rightarrow> RequestState" where
  "signedOut opts reason' message' =
    (let message'' = (case message' of None \<Rightarrow> [] | Some m \<Rightarrow> m)
     in \<lparr> status = SignedOut,
          reason = Some reason',
          message = Some message'',
          frontendApi = options.frontendApi opts,
          proxyUrl = options.proxyUrl opts,
          publishableKey = options.publishableKey opts,
          isSatellite = options.isSatellite opts,
          domain = options.domain opts,
          isSignedIn = False,
          isInterstitial = False,
          isUnknown = False,
          toAuth = (\<lambda>w.
            let (authObject, w') =
                  signedOutAuthObject
                    \<lparr> options = opts, status = SignedOut,
                      reason = Some reason', message = Some message'' \<rparr> w
            in (Some authObject, w')) \<rparr>)"

definition interstitial :: "options \<Rightarrow> AuthReason \<Rightarrow> string option \<Rightarrow> RequestState" where
  "interstitial opts reason' message' =
    (let message'' = (case message' of None \<Rightarrow> [] | Some m \<Rightarrow> m)
     in \<lparr> status = Interstitial,
          reason = Some reason',
          message = Some message'',
          frontendApi = options.frontendApi opts,
          proxyUrl = options.proxyUrl opts,
          publishableKey = options.publishableKey opts,
          isSatellite = options.isSatellite opts,
          domain = options.domain opts,
          isSignedIn = False,
          isInterstitial = True,
          isUnknown = False,
          toAuth = (\<lambda>w. (None, w)) \<rparr>)"

text \<open>
  \<open>unknownState\<close> neither reads \<open>proxyUrl\<close> from the bag nor puts it on the state: the
  property is missing from the returned object and reads as \<open>undefined\<close>.
\<close>

definition unknownState :: "options \<Rightarrow> AuthReason \<Rightarrow> string option \<Rightarrow> RequestState" where
  "unknownState opts reason' message' =
    (let message'' = (case message' of None \<Rightarrow> [] | Some m \<Rightarrow> m)
     in \<lparr> status = Unknown,
          reason = Some reason',
          message = Some message'',
          frontendApi = options.frontendApi opts,
          proxyUrl = None,
          publishableKey = options.publishableKey opts,
          isSatellite = options.isSatellite opts,
          domain = options.domain opts,
          isSignedIn = False,
          isInterstitial = False,
          isUnknown = True,
          toAuth = (\<lambda>w. (None, w)) \<rparr>)"

subsection \<open>The transport codec\<close>

text \<open>
  \<open>inject(key, value)\<close> returns nothing and acts on a carrier of the caller's: the
  handler is a function on the carrier. \<open>x && inject(k, x)\<close> calls it when \<open>x\<close> is
  truthy.
\<close>

definition injectRequestState ::
  "Headers \<Rightarrow> RequestState \<Rightarrow> (string \<Rightarrow> string \<Rightarrow> 'c \<Rightarrow> 'c) \<Rightarrow> 'c \<Rightarrow> 'c" where
  "injectRequestState constants requestState inject c0 =
    (let status' = AuthStatus_value (RequestState.status requestState);
         message' = RequestState.message requestState;
         reason' = map_option AuthReason_value (RequestState.reason requestState);
         c1 = (if status' \<noteq> [] then inject (AuthStatus constants) status' c0 else c0);
         c2 = (case message' of
                 Some m \<Rightarrow> if m \<noteq> [] then inject (AuthMessage constants) m c1 else c1
               | None \<Rightarrow> c1);
         c3 = (case reason' of
                 Some r \<Rightarrow> if r \<noteq> [] then inject (AuthReason constants) r c2 else c2
               | None \<Rightarrow> c2)
     in c3)"

text \<open>
  \<open>retrieve(req, key)\<close> is the caller's too and may act on a state of its own, which is
  passed through the three calls in the order the source makes them.
\<close>

definition retrieveRequestState ::
  "Headers \<Rightarrow> 'r \<Rightarrow> ('r \<Rightarrow> string \<Rightarrow> 'w \<Rightarrow> retrieved \<times> 'w) \<Rightarrow> 'w
    \<Rightarrow> RetrievedRequestState \<times> 'w" where
  "retrieveRequestState constants req retrieve w0 =
    (let (status', w1) = retrieve req (AuthStatus constants) w0;
         (message', w2) = retrieve req (AuthMessage constants) w1;
         (reason', w3) = retrieve req (AuthReason constants) w2
     in (\<lparr> RetrievedRequestState.status = status',
            message = message',
            reason = reason' \<rparr>, w3))"

subsection \<open>Callbacks and inputs used in the statements\<close>

text \<open>A key/value carrier with its two handlers; \<open>miss\<close> is what a missing key reads as.\<close>

definition carrier_inject :: "string \<Rightarrow> string \<Rightarrow> (string \<rightharpoonup> string) \<Rightarrow> (string \<rightharpoonup> string)" where
  "carrier_inject key val c = c(key \<mapsto> val)"

definition carrier_retrieve ::
  "retrieved \<Rightarrow> (string \<rightharpoonup> string) \<Rightarrow> string \<Rightarrow> 'w \<Rightarrow> retrieved \<times> 'w" where
  "carrier_retrieve miss c key w = ((case c key of None \<Rightarrow> miss | Some v \<Rightarrow> Str v), w)"

text \<open>A retrieve callback run under a log of the keys it is called with.\<close>

definition traced ::
  "('r \<Rightarrow> string \<Rightarrow> 'w \<Rightarrow> retrieved \<times> 'w) \<Rightarrow> 'r \<Rightarrow> string \<Rightarrow> 'w \<times> string list
    \<Rightarrow> retrieved \<times> ('w \<times> string list)" where
  "traced retrieve req key s =
    (let (v, w') = retrieve req key (fst s) in (v, (w', snd s @ [key])))"

text \<open>A callback without a state of its own.\<close>

definition stateless :: "('r \<Rightarrow> string \<Rightarrow> retrieved) \<Rightarrow> 'r \<Rightarrow> string \<Rightarrow> unit \<Rightarrow> retrieved \<times> unit" where
  "stateless f req key u = (f req key, u)"

definition clerk_headers :: Headers where
  "clerk_headers =
     \<lparr> AuthStatus = ''x-clerk-auth-status'',
       AuthMessage = ''x-clerk-auth-message'',
       AuthReason = ''x-clerk-auth-reason'' \<rparr>"

definition empty_world :: world where
  "empty_world = \<lparr> issued = [], objects = [] \<rparr>"

definition sample_options :: options where
  "sample_options =
     \<lparr> options.apiKey = None,
       secretKey = Some ''sk_test'',
       apiUrl = Some ''https://api.example'',
       apiVersion = Some ''v1'',
       cookieToken = Some ''c'',
       frontendApi = Some ''fapi.example'',
       proxyUrl = Some ''https://proxy.example'',
       publishableKey = Some ''pk_test'',
       domain = Some ''example.com'',
       isSatellite = Some False,
       headerToken = Some ''h'',
       loadSession = True,
       loadUser = True,
       loadOrganization = True \<rparr>"

definition sample_claims :: JwtPayload where
  "sample_claims = \<lparr> sid = ''sess_1'', org_id = Some ''org_1'', sub = ''user_1'' \<rparr>"

text \<open>An identity service that answers every fetch, and one whose user fetch fails.\<close>

definition answering_client :: "BackendApiClientOptions \<Rightarrow> BackendApiClient" where
  "answering_client cfg =
     \<lparr> getSession = (\<lambda>i. Inr (Session i)),
       getUser = (\<lambda>i. Inr (User i)),
       getOrganization = (\<lambda>i. Inr (Organization i)) \<rparr>"

definition failing_client :: "BackendApiClientOptions \<Rightarrow> BackendApiClient" where
  "failing_client cfg =
     \<lparr> getSession = (\<lambda>i. Inr (Session i)),
       getUser = (\<lambda>i. Inl (FetchError ''user fetch failed'')),
       getOrganization = (\<lambda>i. Inr (Organization i)) \<rparr>"

subsection \<open>The parts of \<open>signedIn\<close>, and the vocabulary of the statements\<close>

text \<open>
  Names for the parts of \<open>signedIn\<close>: the configuration it builds the client from, the
  three promises it hands to \<open>Promise.all\<close>, the fetches it issues for them, the state it
  returns and the auth object it makes. \<open>signedIn_normal_form\<close> below ties them to the
  definition.
\<close>

abbreviation backend_config :: "options \<Rightarrow> BackendApiClientOptions" where
  "backend_config opts \<equiv>
     \<lparr> BackendApiClientOptions.apiKey = options.apiKey opts,
       secretKey = options.secretKey opts,
       apiUrl = options.apiUrl opts,
       apiVersion = options.apiVersion opts \<rparr>"

definition session_promise ::
  "(BackendApiClientOptions \<Rightarrow> BackendApiClient) \<Rightarrow> options \<Rightarrow> JwtPayload
    \<Rightarrow> fetchError + Session option" where
  "session_promise mk opts claims =
     (if loadSession opts
      then map_sum id Some (getSession (mk (backend_config opts)) (sid claims))
      else Inr None)"

definition user_promise ::
  "(BackendApiClientOptions \<Rightarrow> BackendApiClient) \<Rightarrow> options \<Rightarrow> JwtPayload
    \<Rightarrow> fetchError + User option" where
  "user_promise mk opts claims =
     (if loadUser opts
      then map_sum id Some (getUser (mk (backend_config opts)) (sub claims))
      else Inr None)"

definition organization_promise ::
  "(BackendApiClientOptions \<Rightarrow> BackendApiClient) \<Rightarrow> options \<Rightarrow> JwtPayload
    \<Rightarrow> fetchError + Organization option" where
  "organization_promise mk opts claims =
     (case org_id claims of
        Some oid \<Rightarrow>
          if loadOrganization opts \<and> oid \<noteq> []
          then map_sum id Some (getOrganization (mk (backend_config opts)) oid)
          else Inr None
      | None \<Rightarrow> Inr None)"

definition fetches_of :: "options \<Rightarrow> JwtPayload \<Rightarrow> fetchCall list" where
  "fetches_of opts claims =
     (if loadSession opts then [GetSession (sid claims)] else [])
     @ (if loadUser opts then [GetUser (sub claims)] else [])
     @ (case org_id claims of
          Some oid \<Rightarrow>
            if loadOrganization opts \<and> oid \<noteq> [] then [GetOrganization oid] else []
        | None \<Rightarrow> [])"

abbreviation signed_in_state :: "options \<Rightarrow> nat \<Rightarrow> RequestState" where
  "signed_in_state opts r \<equiv>
     \<lparr> status = SignedIn, reason = None, message = None,
       frontendApi = options.frontendApi opts,
       proxyUrl = options.proxyUrl opts,
       publishableKey = options.publishableKey opts,
       isSatellite = options.isSatellite opts,
       domain = options.domain opts,
       isSignedIn = True, isInterstitial = False, isUnknown = False,
       toAuth = (\<lambda>v. (Some r, v)) \<rparr>"

abbreviation signed_in_object ::
  "options \<Rightarrow> JwtPayload \<Rightarrow> Session option \<Rightarrow> User option \<Rightarrow> Organization option
    \<Rightarrow> AuthObject" where
  "signed_in_object opts claims s u g \<equiv>
     SignedInAuthObject claims
       \<lparr> SignedInAuthObjectOptions.secretKey = options.secretKey opts,
         apiKey = options.apiKey opts,
         apiUrl = options.apiUrl opts,
         apiVersion = options.apiVersion opts,
         token = or_else (or_else (cookieToken opts) (headerToken opts)) (Some []),
         session = s, user = u, organization = g \<rparr>
       \<lparr> options = opts, status = SignedIn, reason = None, message = None \<rparr>"

text \<open>
  The data model's table: the three flags are a function of the status, and \<open>reason\<close>
  and \<open>message\<close> are \<open>null\<close> for \<open>SignedIn\<close> and for no other status.
\<close>

definition determined_by_status :: "RequestState \<Rightarrow> bool" where
  "determined_by_status st \<longleftrightarrow>
     (isSignedIn st, isInterstitial st, isUnknown st) =
       (case RequestState.status st of
          SignedIn \<Rightarrow> (True, False, False)
        | SignedOut \<Rightarrow> (False, False, False)
        | Interstitial \<Rightarrow> (False, True, False)
        | Unknown \<Rightarrow> (False, False, True))
     \<and> (RequestState.reason st = None) = (RequestState.status st = SignedIn)
     \<and> (RequestState.message st = None) = (RequestState.status st = SignedIn)"

text \<open>
  What a field of the state reads as after the round trip through a carrier: its value
  when it was truthy, and whatever a missing key reads as otherwise.
\<close>

definition kept :: "retrieved \<Rightarrow> string option \<Rightarrow> retrieved" where
  "kept miss v = (case v of Some s \<Rightarrow> if s \<noteq> [] then Str s else miss | None \<Rightarrow> miss)"

definition sample_signed_out :: RequestState where
  "sample_signed_out = signedOut sample_options (AuthErrorReason CookieMissing) None"

section \<open>Properties\<close>

subsection \<open>What \<open>signedIn\<close> computes\<close>

lemmas signedIn_unfold =
  signedIn_def Let_def signedInAuthObject_def alloc_def issue_def
  session_promise_def user_promise_def organization_promise_def fetches_of_def

lemma Promise_all_Inr_iff:
  "Promise_all p q r = Inr v \<longleftrightarrow> (\<exists>a b c. p = Inr a \<and> q = Inr b \<and> r = Inr c \<and> v = (a, b, c))"
  by (cases p; cases q; cases r) auto

lemma Promise_all_isl: "isl (Promise_all p q r) \<longleftrightarrow> isl p \<or> isl q \<or> isl r"
  by (cases p; cases q; cases r) auto

lemma Promise_all_Inl: "Promise_all p q r = Inl e \<Longrightarrow> p = Inl e \<or> q = Inl e \<or> r = Inl e"
  by (cases p; cases q; cases r) auto

text \<open>
  \<open>signedIn\<close> with its steps run: the log grows by the gated fetches whatever the
  outcome; a rejection of the joint wait is the result, and otherwise one auth object is
  made and the state's \<open>toAuth\<close> hands out its reference.
\<close>

lemma signedIn_normal_form:
  "signedIn mk opts claims w =
    (case Promise_all (session_promise mk opts claims) (user_promise mk opts claims)
            (organization_promise mk opts claims) of
       Inl e \<Rightarrow> (Inl e, w\<lparr>issued := issued w @ fetches_of opts claims\<rparr>)
     | Inr (sessionResp, userResp, organizationResp) \<Rightarrow>
         (Inr (signed_in_state opts (length (objects w))),
          w\<lparr>issued := issued w @ fetches_of opts claims,
            objects := objects w
              @ [signed_in_object opts claims sessionResp userResp organizationResp]\<rparr>))"
proof (cases "org_id claims")
  case None
  then show ?thesis
    by (cases "loadSession opts"; cases "loadUser opts")
       (simp_all add: signedIn_unfold split: sum.split)
next
  case (Some oid)
  then show ?thesis
    by (cases "loadSession opts"; cases "loadUser opts";
        cases "loadOrganization opts"; cases "oid = []")
       (simp_all add: signedIn_unfold split: sum.split)
qed

lemma signedIn_fulfilled:
  assumes "signedIn mk opts claims w = (Inr st, w')"
  obtains s u g where
    "session_promise mk opts claims = Inr s"
    "user_promise mk opts claims = Inr u"
    "organization_promise mk opts claims = Inr g"
    "st = signed_in_state opts (length (objects w))"
    "w' = w\<lparr>issued := issued w @ fetches_of opts claims,
            objects := objects w @ [signed_in_object opts claims s u g]\<rparr>"
proof (cases "Promise_all (session_promise mk opts claims) (user_promise mk opts claims)
            (organization_promise mk opts claims)")
  case (Inl e)
  with assms show ?thesis
    by (simp add: signedIn_normal_form)
next
  case (Inr v)
  then obtain s u g where
    "session_promise mk opts claims = Inr s"
    "user_promise mk opts claims = Inr u"
    "organization_promise mk opts claims = Inr g" "v = (s, u, g)"
    unfolding Promise_all_Inr_iff by blast
  with assms Inr that show ?thesis
    by (simp add: signedIn_normal_form)
qed

lemma signedIn_rejected:
  assumes "signedIn mk opts claims w = (Inl e, w')"
  shows "Promise_all (session_promise mk opts claims) (user_promise mk opts claims)
            (organization_promise mk opts claims) = Inl e"
    and "w' = w\<lparr>issued := issued w @ fetches_of opts claims\<rparr>"
  using assms
  by (simp_all add: signedIn_normal_form split: sum.splits prod.splits)

lemmas constructor_defs = signedOut_def interstitial_def unknownState_def Let_def

lemmas sample_defs =
  sample_options_def sample_claims_def empty_world_def answering_client_def failing_client_def

lemma sample_run:
  "signedIn answering_client sample_options sample_claims empty_world =
     (Inr (signed_in_state sample_options 0),
      \<lparr> issued = [GetSession ''sess_1'', GetUser ''user_1'', GetOrganization ''org_1''],
        objects = [signed_in_object sample_options sample_claims
           (Some (Session ''sess_1'')) (Some (User ''user_1''))
           (Some (Organization ''org_1''))] \<rparr>)"
  by (simp add: signedIn_normal_form session_promise_def user_promise_def
      organization_promise_def fetches_of_def sample_defs)

lemmas part_defs = session_promise_def user_promise_def organization_promise_def fetches_of_def

lemma answering_client_fulfils:
  "\<exists>st w'. signedIn answering_client opts claims w = (Inr st, w')"
  by (cases "org_id claims")
     (simp_all add: signedIn_normal_form session_promise_def user_promise_def
        organization_promise_def answering_client_def)

lemma failing_run:
  "signedIn failing_client sample_options sample_claims empty_world =
     (Inl (FetchError ''user fetch failed''),
      \<lparr> issued = [GetSession ''sess_1'', GetUser ''user_1'', GetOrganization ''org_1''],
        objects = [] \<rparr>)"
  by (simp add: signedIn_normal_form part_defs sample_defs)

subsection \<open>What the codec writes\<close>

lemma AuthStatus_value_truthy: "AuthStatus_value s \<noteq> []"
  by (cases s) simp_all

lemma injected_carrier:
  assumes "distinct [AuthStatus h, AuthMessage h, AuthReason h]"
  shows "injectRequestState h st carrier_inject Map.empty =
     (\<lambda>k. if k = AuthStatus h then Some (AuthStatus_value (RequestState.status st))
          else if k = AuthMessage h \<and> truthy (RequestState.message st) then RequestState.message st
          else if k = AuthReason h \<and> truthy (map_option AuthReason_value (RequestState.reason st))
               then map_option AuthReason_value (RequestState.reason st)
          else None)"
  using assms
  by (cases "RequestState.message st"; cases "RequestState.reason st")
     (auto simp: injectRequestState_def carrier_inject_def Let_def truthy_def
        AuthStatus_value_truthy fun_eq_iff)

subsection \<open>The four constructors\<close>

text \<open>
  C1. Each constructor returns a state of its own status, and on every state a
  constructor returns the status determines the rest of the shape: the flags
  \<open>isSignedIn\<close>/\<open>isInterstitial\<close>/\<open>isUnknown\<close> are true/false/false for \<open>SignedIn\<close>,
  false/false/false for \<open>SignedOut\<close>, false/true/false for \<open>Interstitial\<close> and
  false/false/true for \<open>Unknown\<close>, and \<open>reason\<close> and \<open>message\<close> are \<open>null\<close> exactly when
  the status is \<open>SignedIn\<close>. For \<open>signedIn\<close> the state is the one its promise is
  fulfilled with.
\<close>

theorem constructors_shape_determined_by_status:
  "(\<forall>st w'. signedIn mk opts claims w = (Inr st, w') \<longrightarrow>
      RequestState.status st = SignedIn \<and> determined_by_status st)
   \<and> RequestState.status (signedOut opts r m) = SignedOut
   \<and> determined_by_status (signedOut opts r m)
   \<and> RequestState.status (interstitial opts r m) = Interstitial
   \<and> determined_by_status (interstitial opts r m)
   \<and> RequestState.status (unknownState opts r m) = Unknown
   \<and> determined_by_status (unknownState opts r m)"
proof -
  have "RequestState.status st = SignedIn \<and> determined_by_status st"
    if "signedIn mk opts claims w = (Inr st, w')" for st w'
    using that by (elim signedIn_fulfilled) (simp add: determined_by_status_def)
  moreover have "RequestState.status (signedOut opts r m) = SignedOut
      \<and> determined_by_status (signedOut opts r m)"
    by (simp add: constructor_defs determined_by_status_def)
  moreover have "RequestState.status (interstitial opts r m) = Interstitial
      \<and> determined_by_status (interstitial opts r m)"
    by (simp add: constructor_defs determined_by_status_def)
  moreover have "RequestState.status (unknownState opts r m) = Unknown
      \<and> determined_by_status (unknownState opts r m)"
    by (simp add: constructor_defs determined_by_status_def)
  ultimately show ?thesis by blast
qed

theorem constructors_shape_determined_by_status_witness:
  "\<exists>st w'. signedIn answering_client sample_options sample_claims empty_world = (Inr st, w')
     \<and> RequestState.status st = SignedIn \<and> determined_by_status st"
  using constructors_shape_determined_by_status
    [of answering_client sample_options sample_claims empty_world]
    sample_run
  by blast

text \<open>
  C2. The claim is that every constructor copies the five tenant fields of the bag onto
  the state. \<open>unknownState\<close> leaves \<open>proxyUrl\<close> out: for a bag whose proxy URL is
  \<open>https://proxy.example\<close> its state has no proxy URL, while \<open>interstitial\<close> and
  \<open>signedOut\<close>, given the same bag, carry it.
\<close>

theorem unknownState_omits_proxyUrl:
  "options.proxyUrl sample_options = Some ''https://proxy.example''
   \<and> RequestState.proxyUrl (unknownState sample_options (AuthErrorReason UnexpectedError) None) = None
   \<and> RequestState.proxyUrl (interstitial sample_options (AuthErrorReason UnexpectedError) None)
       = Some ''https://proxy.example''
   \<and> RequestState.proxyUrl (signedOut sample_options (AuthErrorReason UnexpectedError) None)
       = Some ''https://proxy.example''"
  by (simp add: constructor_defs sample_options_def)

text \<open>
  C6. For every bag and reason, \<open>signedOut(options, reason)\<close> with the message left out
  has status \<open>SignedOut\<close>, that reason, the message \<open>''\<close> and \<open>isSignedIn\<close> false, and
  its \<open>toAuth()\<close> returns a reference (not \<open>null\<close>) to a signed-out auth object built
  from that same reason and message. For every reason and message, \<open>toAuth()\<close> of an
  \<open>interstitial\<close> or \<open>unknownState\<close> state returns \<open>null\<close> and changes nothing, and a
  message that is passed is the state's message; \<open>interstitial(options,
  CookieOutDated, 'stale')\<close> has the message \<open>'stale'\<close>.
\<close>

theorem rejection_constructors_postcondition:
  "RequestState.status (signedOut opts r None) = SignedOut
   \<and> RequestState.reason (signedOut opts r None) = Some r
   \<and> RequestState.message (signedOut opts r None) = Some []
   \<and> \<not> isSignedIn (signedOut opts r None)
   \<and> toAuth (signedOut opts r None) w =
       (Some (length (objects w)),
        w\<lparr>objects := objects w @
            [SignedOutAuthObject
               \<lparr> options = opts, status = SignedOut, reason = Some r, message = Some [] \<rparr>]\<rparr>)
   \<and> toAuth (interstitial opts r m) w = (None, w)
   \<and> toAuth (unknownState opts r m) w = (None, w)
   \<and> RequestState.message (interstitial opts r (Some msg)) = Some msg
   \<and> RequestState.message (unknownState opts r (Some msg)) = Some msg
   \<and> RequestState.message (interstitial opts (AuthErrorReason CookieOutDated) (Some ''stale''))
       = Some ''stale''"
  by (simp add: constructor_defs signedOutAuthObject_def alloc_def)

text \<open>
  C8, as stated: the auth object is made once and two calls of \<open>toAuth()\<close> return the
  same object, for \<open>signedOut\<close> as for \<open>signedIn\<close>. On a \<open>signedOut\<close> state the first call
  in an empty store returns object 0 and the second returns object 1: two objects have
  been made, and the two calls return different ones.
\<close>

theorem signedOut_toAuth_builds_anew:
  "fst (toAuth sample_signed_out empty_world) = Some 0
   \<and> fst (toAuth sample_signed_out (snd (toAuth sample_signed_out empty_world))) = Some 1
   \<and> fst (toAuth sample_signed_out empty_world)
       \<noteq> fst (toAuth sample_signed_out (snd (toAuth sample_signed_out empty_world)))
   \<and> length (objects empty_world) = 0
   \<and> length (objects (snd (toAuth sample_signed_out
         (snd (toAuth sample_signed_out empty_world))))) = 2"
  by (simp add: sample_signed_out_def constructor_defs signedOutAuthObject_def alloc_def
      empty_world_def)

text \<open>
  C8, amended. \<open>signedIn\<close> makes exactly one auth object while it resolves, and every
  \<open>toAuth()\<close> of its state returns the reference to that object and leaves the world as
  it is, so two calls return the same object. \<open>signedOut\<close> makes none when it builds the
  state: every \<open>toAuth()\<close> of its state makes one new signed-out object from the bag,
  reason and message captured at construction and issues no fetch, so two calls in a row
  return two different objects with the same contents.
\<close>

theorem auth_object_construction:
  "(\<forall>st w'. signedIn mk opts claims w = (Inr st, w') \<longrightarrow>
      (\<exists>obj. objects w' = objects w @ [obj])
      \<and> (\<forall>v. toAuth st v = (Some (length (objects w)), v))
      \<and> (\<forall>v. fst (toAuth st (snd (toAuth st v))) = fst (toAuth st v)))
   \<and> objects (snd (toAuth (signedOut opts r m) v)) =
       objects v @
         [SignedOutAuthObject
            \<lparr> options = opts, status = SignedOut, reason = Some r,
              message = Some (case m of None \<Rightarrow> [] | Some x \<Rightarrow> x) \<rparr>]
   \<and> fst (toAuth (signedOut opts r m) v) = Some (length (objects v))
   \<and> issued (snd (toAuth (signedOut opts r m) v)) = issued v
   \<and> fst (toAuth (signedOut opts r m) (snd (toAuth (signedOut opts r m) v)))
       = Some (Suc (length (objects v)))
   \<and> objects (snd (toAuth (signedOut opts r m) (snd (toAuth (signedOut opts r m) v))))
         ! Suc (length (objects v))
       = objects (snd (toAuth (signedOut opts r m) (snd (toAuth (signedOut opts r m) v))))
         ! length (objects v)"
proof -
  have a: "(\<exists>obj. objects w' = objects w @ [obj])
      \<and> (\<forall>v. toAuth st v = (Some (length (objects w)), v))
      \<and> (\<forall>v. fst (toAuth st (snd (toAuth st v))) = fst (toAuth st v))"
    if "signedIn mk opts claims w = (Inr st, w')" for st w'
    using that by (elim signedIn_fulfilled) simp
  have b: "toAuth (signedOut opts r m) u =
      (Some (length (objects u)),
       u\<lparr>objects := objects u @
         [SignedOutAuthObject
            \<lparr> options = opts, status = SignedOut, reason = Some r,
              message = Some (case m of None \<Rightarrow> [] | Some x \<Rightarrow> x) \<rparr>]\<rparr>)" for u
    by (simp add: constructor_defs signedOutAuthObject_def alloc_def)
  show ?thesis
    using a by (simp add: b nth_append)
qed

theorem auth_object_construction_witness:
  "\<exists>st w'. signedIn answering_client sample_options sample_claims empty_world = (Inr st, w')
     \<and> length (objects w') = 1
     \<and> toAuth st w' = (Some 0, w')
     \<and> fst (toAuth st (snd (toAuth st w'))) = fst (toAuth st w')"
proof -
  obtain st w' where run:
    "signedIn answering_client sample_options sample_claims empty_world = (Inr st, w')"
    using answering_client_fulfils by blast
  from auth_object_construction
    [of answering_client sample_options sample_claims empty_world] run
  have "(\<exists>obj. objects w' = objects empty_world @ [obj])
      \<and> (\<forall>v. toAuth st v = (Some (length (objects empty_world)), v))
      \<and> (\<forall>v. fst (toAuth st (snd (toAuth st v))) = fst (toAuth st v))"
    by blast
  then show ?thesis
    using run by (auto simp: empty_world_def)
qed

subsection \<open>\<open>signedIn\<close>: token, fetches and failures\<close>

text \<open>
  C4. When \<open>signedIn\<close> is fulfilled, \<open>toAuth()\<close> returns the signed-in auth object built
  from the claims, and the token it was built with is \<open>cookieToken || headerToken || ''\<close>:
  the cookie token when there is one, otherwise the header token when there is one,
  otherwise the empty string. A token is there when it is a non-empty string, as \<open>||\<close>
  has it.
\<close>

theorem signedIn_token_selection:
  assumes "signedIn mk opts claims w = (Inr st, w')"
  shows "\<exists>r so dbg. toAuth st w' = (Some r, w') \<and> r < length (objects w')
      \<and> objects w' ! r = SignedInAuthObject claims so dbg
      \<and> token so =
          (if truthy (cookieToken opts) then cookieToken opts
           else if truthy (headerToken opts) then headerToken opts
           else Some [])"
  using assms
  by (elim signedIn_fulfilled) (simp add: or_else_def truthy_def)

theorem signedIn_token_selection_witness:
  "(\<exists>st w' r so dbg.
      signedIn answering_client sample_options sample_claims empty_world = (Inr st, w')
      \<and> cookieToken sample_options = Some ''c'' \<and> headerToken sample_options = Some ''h''
      \<and> toAuth st w' = (Some r, w')
      \<and> objects w' ! r = SignedInAuthObject sample_claims so dbg \<and> token so = Some ''c'')
   \<and> (\<exists>st w' r so dbg.
      signedIn answering_client (sample_options\<lparr>cookieToken := None\<rparr>) sample_claims empty_world
        = (Inr st, w')
      \<and> toAuth st w' = (Some r, w')
      \<and> objects w' ! r = SignedInAuthObject sample_claims so dbg \<and> token so = Some ''h'')
   \<and> (\<exists>st w' r so dbg.
      signedIn answering_client (sample_options\<lparr>cookieToken := None, headerToken := None\<rparr>)
        sample_claims empty_world = (Inr st, w')
      \<and> toAuth st w' = (Some r, w')
      \<and> objects w' ! r = SignedInAuthObject sample_claims so dbg \<and> token so = Some [])"
proof -
  obtain st1 w1 where 1:
    "signedIn answering_client sample_options sample_claims empty_world = (Inr st1, w1)"
    using answering_client_fulfils by blast
  obtain st2 w2 where 2:
    "signedIn answering_client (sample_options\<lparr>cookieToken := None\<rparr>) sample_claims empty_world
       = (Inr st2, w2)"
    using answering_client_fulfils by blast
  obtain st3 w3 where 3:
    "signedIn answering_client (sample_options\<lparr>cookieToken := None, headerToken := None\<rparr>)
        sample_claims empty_world = (Inr st3, w3)"
    using answering_client_fulfils by blast
  have a: "cookieToken sample_options = Some ''c''" "headerToken sample_options = Some ''h''"
    by (simp_all add: sample_options_def)
  show ?thesis
    using signedIn_token_selection [OF 1] signedIn_token_selection [OF 2]
      signedIn_token_selection [OF 3] a
    unfolding 1 2 3
    by (simp add: truthy_def) blast
qed

text \<open>
  C5. Whatever the outcome, the fetches \<open>signedIn\<close> issues are, in this order, the
  session fetch exactly when \<open>loadSession\<close> is set, the user fetch exactly when
  \<open>loadUser\<close> is set, and the organization fetch exactly when \<open>loadOrganization\<close> is set
  and the claims carry a (non-empty) \<open>org_id\<close>; with no \<open>org_id\<close> no organization fetch
  is issued, whatever the flag. In the auth object of a fulfilled call a slot whose fetch
  was gated off is \<open>undefined\<close>.
\<close>

theorem signedIn_fetch_gating:
  "issued (snd (signedIn mk opts claims w)) =
     issued w
     @ (if loadSession opts then [GetSession (sid claims)] else [])
     @ (if loadUser opts then [GetUser (sub claims)] else [])
     @ (case org_id claims of
          Some oid \<Rightarrow> if loadOrganization opts \<and> oid \<noteq> [] then [GetOrganization oid] else []
        | None \<Rightarrow> [])
   \<and> (org_id claims = None \<longrightarrow>
        issued (snd (signedIn mk opts claims w)) =
          issued w
          @ (if loadSession opts then [GetSession (sid claims)] else [])
          @ (if loadUser opts then [GetUser (sub claims)] else []))
   \<and> (\<forall>st w'. signedIn mk opts claims w = (Inr st, w') \<longrightarrow>
        (\<exists>so dbg. objects w' = objects w @ [SignedInAuthObject claims so dbg]
           \<and> (\<not> loadSession opts \<longrightarrow> session so = None)
           \<and> (\<not> loadUser opts \<longrightarrow> user so = None)
           \<and> (\<not> (loadOrganization opts \<and> truthy (org_id claims)) \<longrightarrow> organization so = None)))"
proof -
  have log: "issued (snd (signedIn mk opts claims w)) = issued w @ fetches_of opts claims"
    by (simp add: signedIn_normal_form split: sum.split)
  have slots: "\<exists>so dbg. objects w' = objects w @ [SignedInAuthObject claims so dbg]
           \<and> (\<not> loadSession opts \<longrightarrow> session so = None)
           \<and> (\<not> loadUser opts \<longrightarrow> user so = None)
           \<and> (\<not> (loadOrganization opts \<and> truthy (org_id claims)) \<longrightarrow> organization so = None)"
    if "signedIn mk opts claims w = (Inr st, w')" for st w'
    using that
    by (elim signedIn_fulfilled)
       (auto simp: session_promise_def user_promise_def organization_promise_def truthy_def
          split: if_splits option.splits)
  show ?thesis
    using log slots by (simp add: fetches_of_def)
qed

theorem signedIn_fetch_gating_witness:
  "issued (snd (signedIn answering_client
       (sample_options\<lparr>loadSession := False, loadUser := False\<rparr>)
       (sample_claims\<lparr>org_id := None\<rparr>) empty_world)) = []
   \<and> loadOrganization (sample_options\<lparr>loadSession := False, loadUser := False\<rparr>)
   \<and> (\<exists>st w' so dbg.
        signedIn answering_client (sample_options\<lparr>loadSession := False, loadUser := False\<rparr>)
          (sample_claims\<lparr>org_id := None\<rparr>) empty_world = (Inr st, w')
        \<and> objects w' = [SignedInAuthObject (sample_claims\<lparr>org_id := None\<rparr>) so dbg]
        \<and> session so = None \<and> user so = None \<and> organization so = None)"
proof -
  obtain st w' where run:
    "signedIn answering_client (sample_options\<lparr>loadSession := False, loadUser := False\<rparr>)
          (sample_claims\<lparr>org_id := None\<rparr>) empty_world = (Inr st, w')"
    using answering_client_fulfils by blast
  show ?thesis
    using signedIn_fetch_gating [of answering_client
        "sample_options\<lparr>loadSession := False, loadUser := False\<rparr>"
        "sample_claims\<lparr>org_id := None\<rparr>" empty_world]
    unfolding run
    by (simp add: sample_defs truthy_def)
qed

text \<open>
  C7. \<open>signedOut\<close>, \<open>interstitial\<close> and \<open>unknownState\<close> have no failing branch: for
  every bag, reason and message they return a state of their status. \<open>signedIn\<close> is
  rejected exactly when one of the fetches it issued fails; it is then rejected with the
  error of a failed fetch and has made no auth object. Whenever it is fulfilled the state
  is a \<open>SignedIn\<close> one, so a failure never comes back as a signed-out or unknown state.
\<close>

theorem fetch_failure_propagates:
  "RequestState.status (signedOut opts r m) = SignedOut
   \<and> RequestState.status (interstitial opts r m) = Interstitial
   \<and> RequestState.status (unknownState opts r m) = Unknown
   \<and> (isl (fst (signedIn mk opts claims w)) \<longleftrightarrow>
        (loadSession opts \<and> isl (getSession (mk (backend_config opts)) (sid claims)))
      \<or> (loadUser opts \<and> isl (getUser (mk (backend_config opts)) (sub claims)))
      \<or> (case org_id claims of
            Some oid \<Rightarrow> loadOrganization opts \<and> oid \<noteq> []
               \<and> isl (getOrganization (mk (backend_config opts)) oid)
          | None \<Rightarrow> False))
   \<and> (\<forall>e w'. signedIn mk opts claims w = (Inl e, w') \<longrightarrow>
        objects w' = objects w
        \<and> ((loadSession opts \<and> getSession (mk (backend_config opts)) (sid claims) = Inl e)
          \<or> (loadUser opts \<and> getUser (mk (backend_config opts)) (sub claims) = Inl e)
          \<or> (case org_id claims of
                Some oid \<Rightarrow> loadOrganization opts \<and> oid \<noteq> []
                  \<and> getOrganization (mk (backend_config opts)) oid = Inl e
              | None \<Rightarrow> False)))
   \<and> (\<forall>st w'. signedIn mk opts claims w = (Inr st, w') \<longrightarrow> RequestState.status st = SignedIn)"
proof -
  have isl_map: "isl (map_sum id Some x) = isl x" for x :: "fetchError + 'a"
    by (cases x) simp_all
  have inl_map: "map_sum id Some x = Inl e \<longleftrightarrow> x = Inl e" for x :: "fetchError + 'a" and e
    by (cases x) simp_all
  have a: "isl (fst (signedIn mk opts claims w)) \<longleftrightarrow>
        (loadSession opts \<and> isl (getSession (mk (backend_config opts)) (sid claims)))
      \<or> (loadUser opts \<and> isl (getUser (mk (backend_config opts)) (sub claims)))
      \<or> (case org_id claims of
            Some oid \<Rightarrow> loadOrganization opts \<and> oid \<noteq> []
               \<and> isl (getOrganization (mk (backend_config opts)) oid)
          | None \<Rightarrow> False)"
  proof -
    have "isl (fst (signedIn mk opts claims w)) \<longleftrightarrow>
        isl (Promise_all (session_promise mk opts claims) (user_promise mk opts claims)
            (organization_promise mk opts claims))"
      by (simp add: signedIn_normal_form split: sum.split)
    then show ?thesis
      unfolding Promise_all_isl
      by (auto simp: session_promise_def user_promise_def organization_promise_def isl_map
          split: option.split)
  qed
  have b: "objects w' = objects w
        \<and> ((loadSession opts \<and> getSession (mk (backend_config opts)) (sid claims) = Inl e)
          \<or> (loadUser opts \<and> getUser (mk (backend_config opts)) (sub claims) = Inl e)
          \<or> (case org_id claims of
                Some oid \<Rightarrow> loadOrganization opts \<and> oid \<noteq> []
                  \<and> getOrganization (mk (backend_config opts)) oid = Inl e
              | None \<Rightarrow> False))"
    if "signedIn mk opts claims w = (Inl e, w')" for e w'
  proof -
    from signedIn_rejected [OF that]
    have p: "Promise_all (session_promise mk opts claims) (user_promise mk opts claims)
            (organization_promise mk opts claims) = Inl e"
      and w': "w' = w\<lparr>issued := issued w @ fetches_of opts claims\<rparr>"
      by simp_all
    from Promise_all_Inl [OF p]
    have "(loadSession opts \<and> getSession (mk (backend_config opts)) (sid claims) = Inl e)
          \<or> (loadUser opts \<and> getUser (mk (backend_config opts)) (sub claims) = Inl e)
          \<or> (case org_id claims of
                Some oid \<Rightarrow> loadOrganization opts \<and> oid \<noteq> []
                  \<and> getOrganization (mk (backend_config opts)) oid = Inl e
              | None \<Rightarrow> False)"
      by (auto simp: session_promise_def user_promise_def organization_promise_def inl_map
          split: if_splits option.splits)
    with w' show ?thesis by simp
  qed
  have c: "RequestState.status st = SignedIn"
    if "signedIn mk opts claims w = (Inr st, w')" for st w'
    using that by (elim signedIn_fulfilled) simp
  have d: "RequestState.status (signedOut opts r m) = SignedOut
   \<and> RequestState.status (interstitial opts r m) = Interstitial
   \<and> RequestState.status (unknownState opts r m) = Unknown"
    by (simp add: constructor_defs)
  show ?thesis
    using a b c d by blast
qed
theorem fetch_failure_propagates_witness:
  "loadUser sample_options
   \<and> getUser (failing_client (backend_config sample_options)) (sub sample_claims)
       = Inl (FetchError ''user fetch failed'')
   \<and> isl (fst (signedIn failing_client sample_options sample_claims empty_world))
   \<and> (\<exists>w'. signedIn failing_client sample_options sample_claims empty_world
         = (Inl (FetchError ''user fetch failed''), w') \<and> objects w' = [])
   \<and> (\<exists>st w'. signedIn answering_client sample_options sample_claims empty_world = (Inr st, w')
         \<and> RequestState.status st = SignedIn)"
proof -
  obtain st w' where run:
    "signedIn answering_client sample_options sample_claims empty_world = (Inr st, w')"
    using answering_client_fulfils by blast
  show ?thesis
    using fetch_failure_propagates [of sample_options _ _ failing_client sample_claims empty_world]
      fetch_failure_propagates [of sample_options _ _ answering_client sample_claims empty_world]
    unfolding run failing_run
    by (simp add: sample_defs)
qed

subsection \<open>The transport codec\<close>

text \<open>
  C3. With three different header names, injecting a state into an empty carrier and
  retrieving from that carrier gives the status, and for \<open>message\<close> and \<open>reason\<close> the
  value when it was truthy on the state and what a missing key reads as (\<open>undefined\<close> or
  \<open>null\<close>) otherwise. The status key is always written. An empty message is not
  written: its key is missing from the carrier and it is retrieved as \<open>undefined\<close> or
  \<open>null\<close>, not as the empty string.
\<close>

theorem codec_round_trip:
  assumes "distinct [AuthStatus h, AuthMessage h, AuthReason h]"
    and "miss = Undefined \<or> miss = Null"
  shows "fst (retrieveRequestState h (injectRequestState h st carrier_inject Map.empty)
               (carrier_retrieve miss) w)
         = \<lparr> RetrievedRequestState.status = Str (AuthStatus_value (RequestState.status st)),
             message = kept miss (RequestState.message st),
             reason = kept miss (map_option AuthReason_value (RequestState.reason st)) \<rparr>
       \<and> injectRequestState h st carrier_inject Map.empty (AuthStatus h)
           = Some (AuthStatus_value (RequestState.status st))
       \<and> (RequestState.message st = Some [] \<longrightarrow>
            injectRequestState h st carrier_inject Map.empty (AuthMessage h) = None
            \<and> RetrievedRequestState.message
                (fst (retrieveRequestState h (injectRequestState h st carrier_inject Map.empty)
                   (carrier_retrieve miss) w)) = miss
            \<and> miss \<noteq> Str [])"
proof -
  note c = injected_carrier [OF assms(1), of st]
  have 1: "fst (retrieveRequestState h (injectRequestState h st carrier_inject Map.empty)
               (carrier_retrieve miss) w)
         = \<lparr> RetrievedRequestState.status = Str (AuthStatus_value (RequestState.status st)),
             message = kept miss (RequestState.message st),
             reason = kept miss (map_option AuthReason_value (RequestState.reason st)) \<rparr>"
    using assms(1) unfolding c
    by (cases "RequestState.message st"; cases "RequestState.reason st")
       (auto simp: retrieveRequestState_def carrier_retrieve_def kept_def truthy_def)
  have 2: "injectRequestState h st carrier_inject Map.empty (AuthStatus h)
           = Some (AuthStatus_value (RequestState.status st))"
    unfolding c by simp
  have 3: "injectRequestState h st carrier_inject Map.empty (AuthMessage h) = None"
    if "RequestState.message st = Some []"
    using assms(1) that unfolding c by (auto simp: truthy_def)
  have 4: "miss \<noteq> Str []" using assms(2) by auto
  show ?thesis
    using 1 2 3 4 by (simp add: kept_def)
qed

theorem codec_round_trip_witness:
  "distinct [AuthStatus clerk_headers, AuthMessage clerk_headers, AuthReason clerk_headers]
   \<and> RequestState.message sample_signed_out = Some []
   \<and> fst (retrieveRequestState clerk_headers
            (injectRequestState clerk_headers sample_signed_out carrier_inject Map.empty)
            (carrier_retrieve Undefined) ())
       = \<lparr> RetrievedRequestState.status = Str ''signed-out'',
           message = Undefined,
           reason = Str ''cookie-missing'' \<rparr>
   \<and> injectRequestState clerk_headers sample_signed_out carrier_inject Map.empty
        ''x-clerk-auth-message'' = None"
  using codec_round_trip [of clerk_headers Undefined sample_signed_out "()"]
  by (simp add: clerk_headers_def sample_signed_out_def constructor_defs kept_def)

text \<open>
  C9. \<open>retrieveRequestState\<close> calls the callback three times, once for each of the keys
  \<open>AuthStatus\<close>, \<open>AuthMessage\<close>, \<open>AuthReason\<close> in this order, and returns the record of
  the three values the callback gave. On a carrier in which no key was ever written every
  field is what a missing key reads as, \<open>undefined\<close> or \<open>null\<close>; there is no failing
  branch.
\<close>

theorem retrieve_once_per_key:
  "retrieveRequestState h req (traced cb) (w, log) =
     (\<lparr> RetrievedRequestState.status = fst (cb req (AuthStatus h) w),
        message = fst (cb req (AuthMessage h) (snd (cb req (AuthStatus h) w))),
        reason = fst (cb req (AuthReason h)
                   (snd (cb req (AuthMessage h) (snd (cb req (AuthStatus h) w))))) \<rparr>,
      (snd (cb req (AuthReason h)
         (snd (cb req (AuthMessage h) (snd (cb req (AuthStatus h) w))))),
       log @ [AuthStatus h, AuthMessage h, AuthReason h]))
   \<and> retrieveRequestState h Map.empty (carrier_retrieve Undefined) u =
       (\<lparr> RetrievedRequestState.status = Undefined, message = Undefined, reason = Undefined \<rparr>, u)
   \<and> retrieveRequestState h Map.empty (carrier_retrieve Null) u =
       (\<lparr> RetrievedRequestState.status = Null, message = Null, reason = Null \<rparr>, u)"
  by (simp add: retrieveRequestState_def traced_def carrier_retrieve_def split_beta)

text \<open>
  C10. \<open>retrieveRequestState\<close> does not look at what it retrieves: each field of the
  result is the callback's answer for its key, also when the status string is none of the
  four status values and the reason string is no code of \<open>AuthErrorReason\<close>.
\<close>

theorem retrieve_hands_back_verbatim:
  "fst (retrieveRequestState h req (stateless f) ()) =
     \<lparr> RetrievedRequestState.status = f req (AuthStatus h),
       message = f req (AuthMessage h),
       reason = f req (AuthReason h) \<rparr>
   \<and> fst (retrieveRequestState h req (stateless (\<lambda>_ _. Str s)) ()) =
       \<lparr> RetrievedRequestState.status = Str s, message = Str s, reason = Str s \<rparr>
   \<and> ''no-such-code'' \<notin> range AuthStatus_value
   \<and> ''no-such-code'' \<notin> range AuthErrorReason_value
   \<and> RetrievedRequestState.status
        (fst (retrieveRequestState h req (stateless (\<lambda>_ _. Str ''no-such-code'')) ()))
       = Str ''no-such-code''"
proof -
  have 1: "''no-such-code'' \<noteq> AuthStatus_value x" for x
    by (cases x) simp_all
  have 2: "''no-such-code'' \<noteq> AuthErrorReason_value x" for x
    by (cases x) simp_all
  show ?thesis
    using 1 2 by (auto simp: retrieveRequestState_def stateless_def)
qed

end
